theory Spec2Isabelle
  imports Complex_Main "HOL-Library.Sublist"
begin

section \<open>Values, errors and observable events shared by the two scripts\<close>

text \<open>
  Strings are byte lists: the UTF-8 encoding of the JavaScript string. Every pattern the
  scripts search for is ASCII, so \<open>includes\<close>, \<open>startsWith\<close> and the digit regular
  expression give the same answer on the bytes as on the UTF-16 code units.
\<close>

datatype json =
    JNull
  | JBool bool
  | JNumber real
  | JString string
  | JArray "json list"
  | JObject "(string \<times> json) list"

text \<open>A JavaScript value that came out of \<open>JSON.parse\<close>; \<open>None\<close> is \<open>undefined\<close>.\<close>

type_synonym js_value = "json option"

text \<open>
  The Number that \<open>parseInt\<close> yields on a string of decimal digits: a non-negative integer
  that a double represents exactly, or \<open>Infinity\<close>.
\<close>

datatype js_number = Finite nat | Infinity

text \<open>
  A thrown value. \<open>Error m\<close> is any error object whose \<open>message\<close> is \<open>m\<close> (the
  scripts only ever read \<open>message\<close>); \<open>TypeError\<close> is the engine's own TypeError, whose
  message text the engine chooses.
\<close>

datatype js_error = Error string | TypeError

text \<open>
  One console line is a template literal: literal text and substituted values, in order.
\<close>

datatype piece =
    Lit string
  | Val js_value
  | Num js_number
  | Msg js_error

datatype level = Log | Warn | Err

datatype event =
    Console level "piece list"
  | Spawn string "string list"
  | SetTimeout nat
  | HttpGet string
  | ReqDestroy
  | Kill

text \<open>
  How a block of statements ends. \<open>process.exit(n)\<close> ends the process at once: no
  statement after it runs, no \<open>catch\<close> handler and no \<open>finally\<close> block.
\<close>

datatype completion = Normal | ProcessExit nat | Throw js_error

type_synonym run = "event list \<times> completion"

definition seq :: "run \<Rightarrow> run \<Rightarrow> run" where
  "seq p q = (case snd p of Normal \<Rightarrow> (fst p @ fst q, snd q) | _ \<Rightarrow> p)"

definition try_catch :: "run \<Rightarrow> (js_error \<Rightarrow> run) \<Rightarrow> run" where
  "try_catch body handler =
     (case snd body of
        Throw e \<Rightarrow> (fst body @ fst (handler e), snd (handler e))
      | _ \<Rightarrow> body)"

definition try_finally :: "run \<Rightarrow> run \<Rightarrow> run" where
  "try_finally body finalizer =
     (case snd body of
        ProcessExit n \<Rightarrow> body
      | c \<Rightarrow> (fst body @ fst finalizer,
              (case snd finalizer of Normal \<Rightarrow> c | c' \<Rightarrow> c')))"

text \<open>The exit status of the process: 0 on a normal return, 1 on an uncaught exception.\<close>

fun exit_code :: "completion \<Rightarrow> nat" where
  "exit_code Normal = 0"
| "exit_code (ProcessExit n) = n"
| "exit_code (Throw e) = 1"

text \<open>\<open>String.prototype.includes\<close> and \<open>String.prototype.startsWith\<close>.\<close>

fun includes_str :: "string \<Rightarrow> string \<Rightarrow> bool" where
  "includes_str [] t = (t = [])"
| "includes_str (c # cs) t = (prefix t (c # cs) \<or> includes_str cs t)"

definition startsWith :: "string \<Rightarrow> string \<Rightarrow> bool" where
  "startsWith s t = prefix t s"

text \<open>The symbols that open the console lines, as UTF-8 bytes.\<close>

definition sym_magnifier :: string where
  "sym_magnifier = [CHR 0xF0, CHR 0x9F, CHR 0x94, CHR 0x8D]"

definition sym_cross :: string where
  "sym_cross = [CHR 0xE2, CHR 0x9D, CHR 0x8C]"

definition sym_check :: string where
  "sym_check = [CHR 0xE2, CHR 0x9C, CHR 0x85]"

definition sym_package :: string where
  "sym_package = [CHR 0xF0, CHR 0x9F, CHR 0x93, CHR 0xA6]"

definition sym_warning :: string where
  "sym_warning = [CHR 0xE2, CHR 0x9A, CHR 0xA0, CHR 0xEF, CHR 0xB8, CHR 0x8F]"

definition sym_wrench :: string where
  "sym_wrench = [CHR 0xF0, CHR 0x9F, CHR 0x94, CHR 0xA7]"

definition sym_siren :: string where
  "sym_siren = [CHR 0xF0, CHR 0x9F, CHR 0x9A, CHR 0xA8]"


section \<open>The runtime smoke test (\<open>testRuntime\<close>)\<close>

text \<open>
  What the outside world does during one run: whether the build directory exists, and
  how the single HTTP request ends (the response's chunks followed by \<open>end\<close>, an
  \<open>error\<close> event with its message, or the 5000 ms timeout).
\<close>

datatype probe_outcome =
    Response "string list"
  | RequestError string
  | RequestTimeout

record runtime_env =
  build_dir_exists :: bool
  probe :: probe_outcome

definition TIMEOUT :: nat where
  "TIMEOUT = 10000"

text \<open>The \<open>end\<close> handler of the response: events, then rejection (\<open>Inl\<close>) or resolution.\<close>

definition on_end :: "string \<Rightarrow> event list \<times> (js_error + unit)" where
  "on_end data =
     (if includes_str data ''<div id=\"root\">'' \<or> includes_str data ''id=\"root\"'' then
        ([Console Log [Lit (sym_check @ '' Basic HTML structure looks good'')]],
         if includes_str data ''Cannot read properties of undefined'' \<or>
            includes_str data ''ReactCurrentDispatcher'' \<or>
            includes_str data ''React error'' \<or>
            includes_str data ''TypeError''
         then Inl (Error ''React runtime error detected in HTML output'')
         else Inr ())
      else ([], Inl (Error ''React app root element not found'')))"

text \<open>\<open>data += chunk\<close> for every chunk, starting from the empty string.\<close>

definition received :: "string list \<Rightarrow> string" where
  "received chunks = foldl (\<lambda>data chunk. data @ chunk) [] chunks"

definition testPromise :: "probe_outcome \<Rightarrow> event list \<times> (js_error + unit)" where
  "testPromise p =
     (case p of
        Response chunks \<Rightarrow>
          (HttpGet ''http://localhost:3001'' # fst (on_end (received chunks)),
           snd (on_end (received chunks)))
      | RequestError m \<Rightarrow>
          ([HttpGet ''http://localhost:3001''], Inl (Error (''HTTP request failed: '' @ m)))
      | RequestTimeout \<Rightarrow>
          ([HttpGet ''http://localhost:3001'', ReqDestroy], Inl (Error ''HTTP request timeout'')))"

text \<open>\<open>await testPromise\<close>: a rejection is thrown at the \<open>await\<close>.\<close>

definition await :: "event list \<times> (js_error + unit) \<Rightarrow> run" where
  "await p = (case snd p of Inl e \<Rightarrow> (fst p, Throw e) | Inr u \<Rightarrow> (fst p, Normal))"

text \<open>
  \<open>testRuntime\<close>, statement by statement. The two \<open>data\<close> listeners on the child's
  output only fill the buffers \<open>output\<close> and \<open>errorOutput\<close>, which nothing reads; they
  leave no event.
\<close>

definition testRuntime :: "runtime_env \<Rightarrow> run" where
  "testRuntime env =
     seq ([Console Log [Lit (sym_magnifier @ '' Testing runtime compatibility...'')]], Normal)
    (seq (if \<not> build_dir_exists env then
            ([Console Err [Lit (sym_cross @ '' Build directory not found. Run yarn build:only first.'')]],
             ProcessExit 1)
          else ([], Normal))
    (seq ([Spawn ''npx'' [''serve'', ''-s'', ''build'', ''-p'', ''3001'']], Normal)
    (seq ([SetTimeout 2000], Normal)
         (try_finally
            (try_catch
               (seq (await (testPromise (probe env)))
                    ([Console Log [Lit (sym_check @ '' Runtime compatibility test passed'')]], Normal))
               (\<lambda>error.
                  ([Console Err [Lit (sym_cross @ '' Runtime test failed: ''), Msg error],
                    Console Err [Lit ''This suggests React 19 + ReactDOM 17 compatibility issues.''],
                    Console Err [Lit ''Consider upgrading ReactDOM to match React version.'']],
                   ProcessExit 1)))
            ([Kill], Normal)))))"

text \<open>The script's last statement: \<open>testRuntime().catch(...)\<close>.\<close>

definition runtime_main :: "runtime_env \<Rightarrow> run" where
  "runtime_main env =
     try_catch (testRuntime env)
       (\<lambda>error. ([Console Err [Lit (sym_cross @ '' Test script failed: ''), Msg error]],
                  ProcessExit 1))"


section \<open>The version validator (\<open>validateReactVersions\<close>)\<close>

subsection \<open>Reading values that came out of \<open>JSON.parse\<close>\<close>

text \<open>
  \<open>v.name\<close> for the property names the script reads (\<open>dependencies\<close>, \<open>version\<close>), none
  of which a prototype provides: a TypeError on \<open>null\<close> and \<open>undefined\<close>, the own
  property of an object (the last one when the JSON text repeats a key), \<open>undefined\<close> on
  everything else.
\<close>

fun get_prop :: "js_value \<Rightarrow> string \<Rightarrow> js_error + js_value" where
  "get_prop None name = Inl TypeError"
| "get_prop (Some JNull) name = Inl TypeError"
| "get_prop (Some (JObject kvs)) name = Inr (map_of (rev kvs) name)"
| "get_prop (Some v) name = Inr None"

text \<open>\<open>v?.name\<close> (for \<open>react\<close> and \<open>react-dom\<close>): \<open>undefined\<close> instead of the TypeError.\<close>

fun opt_prop :: "js_value \<Rightarrow> string \<Rightarrow> js_value" where
  "opt_prop None name = None"
| "opt_prop (Some JNull) name = None"
| "opt_prop (Some (JObject kvs)) name = map_of (rev kvs) name"
| "opt_prop (Some v) name = None"

text \<open>\<open>!v\<close> is \<open>\<not> truthy v\<close>.\<close>

fun truthy :: "js_value \<Rightarrow> bool" where
  "truthy None = False"
| "truthy (Some JNull) = False"
| "truthy (Some (JBool b)) = b"
| "truthy (Some (JNumber x)) = (x \<noteq> 0)"
| "truthy (Some (JString s)) = (s \<noteq> [])"
| "truthy (Some (JArray xs)) = True"
| "truthy (Some (JObject kvs)) = True"

text \<open>
  Substituting a value into a template literal converts it to a string. The conversion
  throws a TypeError on an object with an own \<open>toString\<close> property (after
  \<open>JSON.parse\<close> it is never callable, and \<open>valueOf\<close> gives no primitive), and on an
  array that holds such an object, since \<open>join\<close> converts every element.
\<close>

fun to_string_throws :: "json \<Rightarrow> bool" where
  "to_string_throws (JObject kvs) = (''toString'' \<in> fst ` set kvs)"
| "to_string_throws (JArray xs) = (\<exists>x \<in> set xs. to_string_throws x)"
| "to_string_throws v = False"

fun piece_throws :: "piece \<Rightarrow> bool" where
  "piece_throws (Val (Some v)) = to_string_throws v"
| "piece_throws p = False"

text \<open>A console call whose argument is a template literal.\<close>

definition console :: "level \<Rightarrow> piece list \<Rightarrow> run" where
  "console l ps =
     (if \<exists>p \<in> set ps. piece_throws p then ([], Throw TypeError)
      else ([Console l ps], Normal))"

text \<open>Evaluating an expression that may throw, then continuing with its value.\<close>

definition eval :: "js_error + 'a \<Rightarrow> ('a \<Rightarrow> run) \<Rightarrow> run" where
  "eval r k = (case r of Inl e \<Rightarrow> ([], Throw e) | Inr v \<Rightarrow> k v)"

text \<open>\<open>v.startsWith(t)\<close>: only a string has the method.\<close>

fun js_startsWith :: "js_value \<Rightarrow> string \<Rightarrow> js_error + bool" where
  "js_startsWith (Some (JString s)) t = Inr (startsWith s t)"
| "js_startsWith v t = Inl TypeError"

subsection \<open>Parsing a version string\<close>

definition is_digit :: "char \<Rightarrow> bool" where
  "is_digit c = (48 \<le> (of_char c :: nat) \<and> (of_char c :: nat) \<le> 57)"

text \<open>
  The regular expression \<open>(\d+)\.(\d+)\.(\d+)\<close> tried at the start of \<open>s\<close>. A \<open>\d+\<close>
  followed by \<open>\.\<close> can only match a whole run of digits (after a shorter one the next
  character is a digit, not a dot), and the last \<open>\d+\<close> is greedy, so the three groups
  are the three maximal runs.
\<close>

definition match_here :: "string \<Rightarrow> (string \<times> string \<times> string) option" where
  "match_here s =
     (let d1 = takeWhile is_digit s; r1 = dropWhile is_digit s in
      if d1 = [] then None else
      (case r1 of
         [] \<Rightarrow> None
       | c1 # s2 \<Rightarrow>
           if c1 \<noteq> CHR ''.'' then None else
           (let d2 = takeWhile is_digit s2; r2 = dropWhile is_digit s2 in
            if d2 = [] then None else
            (case r2 of
               [] \<Rightarrow> None
             | c2 # s3 \<Rightarrow>
                 if c2 \<noteq> CHR ''.'' then None else
                 (let d3 = takeWhile is_digit s3 in
                  if d3 = [] then None else Some (d1, d2, d3))))))"

text \<open>\<open>versionString.match(...)\<close>: the leftmost position where the expression matches.\<close>

fun regex_match :: "string \<Rightarrow> (string \<times> string \<times> string) option" where
  "regex_match [] = None"
| "regex_match (c # cs) =
     (case match_here (c # cs) of Some m \<Rightarrow> Some m | None \<Rightarrow> regex_match cs)"

definition digit_val :: "char \<Rightarrow> nat" where
  "digit_val c = of_char c - 48"

definition decimal_value :: "string \<Rightarrow> nat" where
  "decimal_value ds = foldl (\<lambda>n c. 10 * n + digit_val c) 0 ds"

fun bit_length :: "nat \<Rightarrow> nat" where
  "bit_length n = (if n = 0 then 0 else Suc (bit_length (n div 2)))"

text \<open>
  The double nearest to a natural number (ties to the even significand of 53 bits), and
  \<open>Infinity\<close> from \<open>2 ^ 1024\<close> on.
\<close>

definition to_double :: "nat \<Rightarrow> js_number" where
  "to_double n =
     (if n < 2 ^ 53 then Finite n else
      (let sh = bit_length n - 53;
           q = n div 2 ^ sh;
           r = n mod 2 ^ sh;
           half = 2 ^ (sh - 1);
           m = (if half < r \<or> (r = half \<and> odd q) then q + 1 else q)
       in if 2 ^ 1024 \<le> m * 2 ^ sh then Infinity else Finite (m * 2 ^ sh)))"

text \<open>\<open>parseInt\<close> on a non-empty string of decimal digits, taking the digits' exact value.\<close>

definition parseInt :: "string \<Rightarrow> js_number" where
  "parseInt ds = to_double (decimal_value ds)"

record version =
  major :: js_number
  minor :: js_number
  patch :: js_number

text \<open>
  \<open>getVersionNumber\<close>: on a string, \<open>null\<close> (\<open>None\<close>) or the triple; on any other value
  \<open>match\<close> is not a function and the call throws.
\<close>

definition parse_version :: "string \<Rightarrow> version option" where
  "parse_version versionString =
     (case regex_match versionString of
        None \<Rightarrow> None
      | Some (m1, m2, m3) \<Rightarrow>
          Some \<lparr>major = parseInt m1, minor = parseInt m2, patch = parseInt m3\<rparr>)"

fun getVersionNumber :: "js_value \<Rightarrow> js_error + version option" where
  "getVersionNumber (Some (JString versionString)) = Inr (parse_version versionString)"
| "getVersionNumber v = Inl TypeError"

subsection \<open>The checks\<close>

text \<open>
  What one run reads: the result of \<open>JSON.parse(fs.readFileSync(...))\<close> on the manifest
  (the thrown error, or the value), whether each installed metadata file exists, and the
  result of reading and parsing each of them.
\<close>

record validator_env =
  package_json :: "js_error + json"
  installed_react_exists :: bool
  installed_react_dom_exists :: bool
  installed_react_json :: "js_error + json"
  installed_react_dom_json :: "js_error + json"

definition critical_lines :: "event list" where
  "critical_lines =
     [Console Err [Lit (sym_cross @ '' CRITICAL: React 19 + ReactDOM 17 detected!'')],
      Console Err [Lit (sym_cross @
        '' This causes runtime error: \"Cannot read properties of undefined (reading 'ReactCurrentDispatcher')\"'')],
      Console Err [Lit (sym_cross @ '' React 19 internal APIs are incompatible with ReactDOM 17'')],
      Console Err [Lit []],
      Console Err [Lit (sym_wrench @ '' SOLUTION OPTIONS:'')],
      Console Err [Lit ''   1. Upgrade react-dom to 19.x.x (recommended)''],
      Console Err [Lit ''   2. Downgrade react to 17.x.x''],
      Console Err [Lit []],
      Console Err [Lit (sym_siren @ '' BUILD FAILED: Fix React version compatibility before proceeding'')]]"

definition mismatch_lines :: "version \<Rightarrow> version \<Rightarrow> event list" where
  "mismatch_lines reactVer reactDomVer =
     [Console Warn [Lit (sym_warning @ ''  WARNING: React major version mismatch detected'')],
      Console Warn [Lit ''   React: v'', Num (major reactVer), Lit ''.x.x, ReactDOM: v'',
                    Num (major reactDomVer), Lit ''.x.x''],
      Console Warn [Lit ''   This may cause compatibility issues'']]"

definition installed_lines :: "event list" where
  "installed_lines =
     [Console Err [Lit (sym_cross @ '' RUNTIME ERROR DETECTED IN INSTALLED PACKAGES!'')],
      Console Err [Lit (sym_cross @ '' React 19 + ReactDOM 17 will cause ReactCurrentDispatcher error'')],
      Console Err [Lit (sym_cross @ '' This is the exact error condition you reported'')]]"

definition soft_warning :: event where
  "soft_warning =
     Console Log [Lit (sym_warning @ ''  Could not check installed versions in node_modules'')]"

text \<open>The two checks on the declared versions.\<close>

definition declared_check :: "version \<Rightarrow> version \<Rightarrow> run" where
  "declared_check reactVer reactDomVer =
     seq (if major reactVer = Finite 19 \<and> major reactDomVer = Finite 17
          then (critical_lines, ProcessExit 1) else ([], Normal))
         (if major reactVer \<noteq> major reactDomVer
          then (mismatch_lines reactVer reactDomVer, Normal) else ([], Normal))"

text \<open>The inner \<open>try\<close>/\<open>catch\<close>: the check of the installed packages.\<close>

definition installed_check :: "validator_env \<Rightarrow> run" where
  "installed_check env =
     try_catch
       (if installed_react_exists env \<and> installed_react_dom_exists env then
          eval (installed_react_json env) (\<lambda>installedReact.
          eval (installed_react_dom_json env) (\<lambda>installedReactDom.
          eval (get_prop (Some installedReact) ''version'') (\<lambda>v1.
          seq (console Log [Lit (sym_package @ '' Installed React: ''), Val v1])
         (eval (get_prop (Some installedReactDom) ''version'') (\<lambda>v2.
          seq (console Log [Lit (sym_package @ '' Installed ReactDOM: ''), Val v2])
         (eval (js_startsWith v1 ''19.'') (\<lambda>b1.
          if b1 then
            eval (js_startsWith v2 ''17.'') (\<lambda>b2.
            if b2 then (installed_lines, ProcessExit 1) else ([], Normal))
          else ([], Normal))))))))
        else ([], Normal))
       (\<lambda>nodeModulesError. ([soft_warning], Normal))"

text \<open>The body of the outer \<open>try\<close>.\<close>

definition validate_body :: "validator_env \<Rightarrow> run" where
  "validate_body env =
     eval (package_json env) (\<lambda>packageJson.
     eval (get_prop (Some packageJson) ''dependencies'') (\<lambda>deps1.
     eval (get_prop (Some packageJson) ''dependencies'') (\<lambda>deps2.
     (let reactVersion = opt_prop deps1 ''react'';
          reactDomVersion = opt_prop deps2 ''react-dom'' in
      seq (if \<not> truthy reactVersion \<or> \<not> truthy reactDomVersion
           then ([], Throw (Error ''React or ReactDOM not found in dependencies''))
           else ([], Normal))
     (seq (console Log [Lit (sym_package @ '' React version: ''), Val reactVersion])
     (seq (console Log [Lit (sym_package @ '' ReactDOM version: ''), Val reactDomVersion])
     (eval (getVersionNumber reactVersion) (\<lambda>reactVer.
      eval (getVersionNumber reactDomVersion) (\<lambda>reactDomVer.
      (case (reactVer, reactDomVer) of
         (Some rv, Some dv) \<Rightarrow>
           seq (declared_check rv dv)
          (seq (installed_check env)
               ([Console Log [Lit (sym_check @ '' React version compatibility check passed'')]],
                Normal))
       | _ \<Rightarrow> ([], Throw (Error ''Unable to parse React version numbers''))))))))))))"

definition validateReactVersions :: "validator_env \<Rightarrow> run" where
  "validateReactVersions env =
     seq ([Console Log [Lit (sym_magnifier @ '' Validating React version compatibility...'')]],
          Normal)
         (try_catch (validate_body env)
            (\<lambda>error.
               ([Console Err [Lit (sym_cross @ '' React version validation failed: ''), Msg error]],
                ProcessExit 1)))"


subsection \<open>Notions used to state the validator's properties\<close>

text \<open>
  The manifest declares the version strings \<open>r\<close> (for \<open>react\<close>) and \<open>d\<close> (for
  \<open>react-dom\<close>): what lines 20 and 21 of the script read are these two strings.
\<close>

definition declares :: "validator_env \<Rightarrow> string \<Rightarrow> string \<Rightarrow> bool" where
  "declares env r d =
     (case package_json env of
        Inl e \<Rightarrow> False
      | Inr packageJson \<Rightarrow>
          (case get_prop (Some packageJson) ''dependencies'' of
             Inl e \<Rightarrow> False
           | Inr deps \<Rightarrow>
               opt_prop deps ''react'' = Some (JString r) \<and>
               opt_prop deps ''react-dom'' = Some (JString d)))"

text \<open>
  Both installed metadata files exist, both are read and parsed, and their \<open>version\<close>
  fields are the strings \<open>vr\<close> and \<open>vd\<close>.
\<close>

definition installed :: "validator_env \<Rightarrow> string \<Rightarrow> string \<Rightarrow> bool" where
  "installed env vr vd =
     (installed_react_exists env \<and> installed_react_dom_exists env \<and>
      (case installed_react_json env of
         Inl e \<Rightarrow> False
       | Inr installedReact \<Rightarrow>
           (case installed_react_dom_json env of
              Inl e \<Rightarrow> False
            | Inr installedReactDom \<Rightarrow>
                get_prop (Some installedReact) ''version'' = Inr (Some (JString vr)) \<and>
                get_prop (Some installedReactDom) ''version'' = Inr (Some (JString vd)))))"

text \<open>
  A string contains three dot-separated groups of digits: what the regular expression
  \<open>(\d+)\.(\d+)\.(\d+)\<close> means, said without the matching procedure.
\<close>

definition contains_triple :: "string \<Rightarrow> bool" where
  "contains_triple s =
     (\<exists>p d1 d2 d3 q.
        s = p @ d1 @ ''.'' @ d2 @ ''.'' @ d3 @ q \<and>
        d1 \<noteq> [] \<and> d2 \<noteq> [] \<and> d3 \<noteq> [] \<and>
        (\<forall>c \<in> set (d1 @ d2 @ d3). is_digit c))"

text \<open>
  The majors check of line 49, applied to two version strings: both parse, and the majors
  are 19 and 17.
\<close>

definition majors_19_17 :: "string \<Rightarrow> string \<Rightarrow> bool" where
  "majors_19_17 r d =
     (case parse_version r of
        None \<Rightarrow> False
      | Some reactVer \<Rightarrow>
          (case parse_version d of
             None \<Rightarrow> False
           | Some reactDomVer \<Rightarrow>
               major reactVer = Finite 19 \<and> major reactDomVer = Finite 17))"

text \<open>
  A version string as a package manager writes it: it begins with its numeric triple, and
  the major has no leading zero.
\<close>

definition plain_version :: "string \<Rightarrow> bool" where
  "plain_version s =
     (case match_here s of
        None \<Rightarrow> False
      | Some (d1, d2, d3) \<Rightarrow> d1 = ''0'' \<or> take 1 d1 \<noteq> ''0'')"

subsection \<open>Example inputs\<close>

text \<open>A manifest that declares the two versions, with no installed packages beside it.\<close>

definition manifest :: "string \<Rightarrow> string \<Rightarrow> json" where
  "manifest r d =
     JObject [(''name'', JString ''app''),
              (''dependencies'', JObject [(''react'', JString r), (''react-dom'', JString d)])]"

definition declared_only :: "string \<Rightarrow> string \<Rightarrow> validator_env" where
  "declared_only r d =
     \<lparr>package_json = Inr (manifest r d),
      installed_react_exists = False,
      installed_react_dom_exists = False,
      installed_react_json = Inl (Error ''ENOENT: no such file or directory''),
      installed_react_dom_json = Inl (Error ''ENOENT: no such file or directory'')\<rparr>"

text \<open>The same manifest with both packages installed, at the versions \<open>vr\<close> and \<open>vd\<close>.\<close>

definition with_installed :: "string \<Rightarrow> string \<Rightarrow> string \<Rightarrow> string \<Rightarrow> validator_env" where
  "with_installed r d vr vd =
     \<lparr>package_json = Inr (manifest r d),
      installed_react_exists = True,
      installed_react_dom_exists = True,
      installed_react_json = Inr (JObject [(''name'', JString ''react''), (''version'', JString vr)]),
      installed_react_dom_json =
        Inr (JObject [(''name'', JString ''react-dom''), (''version'', JString vd)])\<rparr>"

text \<open>Both packages installed, the metadata of \<open>react\<close> not valid JSON.\<close>

definition with_broken_installed :: "string \<Rightarrow> string \<Rightarrow> validator_env" where
  "with_broken_installed r d =
     \<lparr>package_json = Inr (manifest r d),
      installed_react_exists = True,
      installed_react_dom_exists = True,
      installed_react_json = Inl (Error ''Unexpected end of JSON input''),
      installed_react_dom_json =
        Inr (JObject [(''name'', JString ''react-dom''), (''version'', JString ''18.2.0'')])\<rparr>"


section \<open>Properties of the runtime smoke test\<close>

lemma includes_str_sublist: "includes_str s t = sublist t s"
  by (induction s) (auto simp: sublist_Cons_right)

lemma foldl_append_concat:
  "foldl (\<lambda>data chunk. data @ chunk) acc chunks = acc @ concat chunks"
  by (induction chunks arbitrary: acc) simp_all

lemma received_concat: "received chunks = concat chunks"
  by (simp add: received_def foldl_append_concat)

lemma root_marker_in_div: "sublist ''id=\"root\"'' ''<div id=\"root\">''"
proof -
  have "''<div id=\"root\">'' = ''<div '' @ ''id=\"root\"'' @ ''>''" by simp
  then show ?thesis unfolding sublist_def by blast
qed

lemma div_marker_implies_root:
  "sublist ''<div id=\"root\">'' data \<Longrightarrow> sublist ''id=\"root\"'' data"
  using root_marker_in_div sublist_order.order_trans by blast

lemma on_end_no_root:
  "\<not> sublist ''id=\"root\"'' data \<Longrightarrow>
   on_end data = ([], Inl (Error ''React app root element not found''))"
  using div_marker_implies_root [of data] by (auto simp add: on_end_def includes_str_sublist)

lemma on_end_root_TypeError:
  "sublist ''id=\"root\"'' data \<Longrightarrow> sublist ''TypeError'' data \<Longrightarrow>
   on_end data = ([Console Log [Lit (sym_check @ '' Basic HTML structure looks good'')]],
                  Inl (Error ''React runtime error detected in HTML output''))"
  by (simp add: on_end_def includes_str_sublist)

text \<open>
  C4. When the build directory does not exist, \<open>testRuntime\<close> prints the error and
  exits with code 1, and no server process is spawned: the run consists of the two
  console lines only.
\<close>

theorem testRuntime_build_dir_missing:
  assumes "\<not> build_dir_exists env"
  shows "testRuntime env =
           ([Console Log [Lit (sym_magnifier @ '' Testing runtime compatibility...'')],
             Console Err [Lit (sym_cross @ '' Build directory not found. Run yarn build:only first.'')]],
            ProcessExit 1)
         \<and> exit_code (snd (testRuntime env)) = 1
         \<and> (\<forall>cmd args. Spawn cmd args \<notin> set (fst (testRuntime env)))"
  using assms by (simp add: testRuntime_def seq_def)

theorem testRuntime_build_dir_missing_witness:
  "\<not> build_dir_exists \<lparr>build_dir_exists = False, probe = Response [''<div id=\"root\"></div>'']\<rparr>
   \<and> testRuntime \<lparr>build_dir_exists = False, probe = Response [''<div id=\"root\"></div>'']\<rparr> =
           ([Console Log [Lit (sym_magnifier @ '' Testing runtime compatibility...'')],
             Console Err [Lit (sym_cross @ '' Build directory not found. Run yarn build:only first.'')]],
            ProcessExit 1)
   \<and> exit_code (snd (testRuntime
         \<lparr>build_dir_exists = False, probe = Response [''<div id=\"root\"></div>'']\<rparr>)) = 1
   \<and> (\<forall>cmd args. Spawn cmd args \<notin> set (fst (testRuntime
         \<lparr>build_dir_exists = False, probe = Response [''<div id=\"root\"></div>'']\<rparr>)))"
  using testRuntime_build_dir_missing
          [of "\<lparr>build_dir_exists = False, probe = Response [''<div id=\"root\"></div>'']\<rparr>"]
  by simp

text \<open>
  C10. When the response body does not contain \<open>id="root"\<close>, \<open>testRuntime\<close> rejects
  with "React app root element not found" and exits with code 1. The run is the same
  whatever else the body contains, so the error signatures are not looked at.
\<close>

theorem testRuntime_root_missing:
  assumes "build_dir_exists env"
    and "probe env = Response chunks"
    and "\<not> sublist ''id=\"root\"'' (concat chunks)"
  shows "testRuntime env =
           ([Console Log [Lit (sym_magnifier @ '' Testing runtime compatibility...'')],
             Spawn ''npx'' [''serve'', ''-s'', ''build'', ''-p'', ''3001''],
             SetTimeout 2000,
             HttpGet ''http://localhost:3001'',
             Console Err [Lit (sym_cross @ '' Runtime test failed: ''),
                          Msg (Error ''React app root element not found'')],
             Console Err [Lit ''This suggests React 19 + ReactDOM 17 compatibility issues.''],
             Console Err [Lit ''Consider upgrading ReactDOM to match React version.'']],
            ProcessExit 1)
         \<and> exit_code (snd (testRuntime env)) = 1"
  using assms
  by (simp add: testRuntime_def seq_def try_catch_def try_finally_def await_def testPromise_def
      received_concat on_end_no_root)

theorem testRuntime_root_missing_witness:
  "build_dir_exists \<lparr>build_dir_exists = True, probe = Response [''<p>Type'', ''Error</p>'']\<rparr>
   \<and> probe \<lparr>build_dir_exists = True, probe = Response [''<p>Type'', ''Error</p>'']\<rparr>
       = Response [''<p>Type'', ''Error</p>'']
   \<and> \<not> sublist ''id=\"root\"'' (concat [''<p>Type'', ''Error</p>''])
   \<and> sublist ''TypeError'' (concat [''<p>Type'', ''Error</p>''])
   \<and> snd (testRuntime \<lparr>build_dir_exists = True, probe = Response [''<p>Type'', ''Error</p>'']\<rparr>)
       = ProcessExit 1
   \<and> Console Err [Lit (sym_cross @ '' Runtime test failed: ''),
                  Msg (Error ''React app root element not found'')]
       \<in> set (fst (testRuntime
             \<lparr>build_dir_exists = True, probe = Response [''<p>Type'', ''Error</p>'']\<rparr>))"
proof -
  have h: "\<not> sublist ''id=\"root\"'' (concat [''<p>Type'', ''Error</p>''])"
    by (simp add: includes_str_sublist [symmetric])
  have t: "sublist ''TypeError'' (concat [''<p>Type'', ''Error</p>''])"
    by (simp add: includes_str_sublist [symmetric])
  show ?thesis
    using h t testRuntime_root_missing
          [of "\<lparr>build_dir_exists = True, probe = Response [''<p>Type'', ''Error</p>'']\<rparr>"
              "[''<p>Type'', ''Error</p>'']"]
    by simp
qed


text \<open>
  C3. The claim as written fails on a body that holds \<open>TypeError\<close> but not the root
  marker: the run reports the missing root element, not a runtime error.
\<close>

theorem testRuntime_TypeError_without_root:
  "sublist ''TypeError'' (concat [''<p>TypeError</p>''])
   \<and> Console Err [Lit (sym_cross @ '' Runtime test failed: ''),
                  Msg (Error ''React runtime error detected in HTML output'')]
       \<notin> set (fst (testRuntime
             \<lparr>build_dir_exists = True, probe = Response [''<p>TypeError</p>'']\<rparr>))
   \<and> Console Err [Lit (sym_cross @ '' Runtime test failed: ''),
                  Msg (Error ''React app root element not found'')]
       \<in> set (fst (testRuntime
             \<lparr>build_dir_exists = True, probe = Response [''<p>TypeError</p>'']\<rparr>))"
proof -
  have t: "sublist ''TypeError'' (concat [''<p>TypeError</p>''])"
    by (simp add: includes_str_sublist [symmetric])
  have e: "on_end ''<p>TypeError</p>'' = ([], Inl (Error ''React app root element not found''))"
    by (simp add: on_end_def)
  show ?thesis
    using t
    by (simp add: testRuntime_def seq_def try_catch_def try_finally_def await_def
        testPromise_def received_def e)
qed

text \<open>
  C3, as the code has it. When the response body contains both \<open>id="root"\<close> and
  \<open>TypeError\<close>, \<open>testRuntime\<close> prints the "React runtime error detected in HTML
  output" failure line and exits with code 1.
\<close>

theorem testRuntime_TypeError_with_root:
  assumes "build_dir_exists env"
    and "probe env = Response chunks"
    and "sublist ''id=\"root\"'' (concat chunks)"
    and "sublist ''TypeError'' (concat chunks)"
  shows "snd (testRuntime env) = ProcessExit 1
         \<and> exit_code (snd (testRuntime env)) = 1
         \<and> Console Err [Lit (sym_cross @ '' Runtime test failed: ''),
                        Msg (Error ''React runtime error detected in HTML output'')]
             \<in> set (fst (testRuntime env))"
  using assms
  by (simp add: testRuntime_def seq_def try_catch_def try_finally_def await_def testPromise_def
      received_concat on_end_root_TypeError)

theorem testRuntime_TypeError_with_root_witness:
  "build_dir_exists
     \<lparr>build_dir_exists = True, probe = Response [''<div id=\"root\">Type'', ''Error</div>'']\<rparr>
   \<and> probe \<lparr>build_dir_exists = True, probe = Response [''<div id=\"root\">Type'', ''Error</div>'']\<rparr>
       = Response [''<div id=\"root\">Type'', ''Error</div>'']
   \<and> sublist ''id=\"root\"'' (concat [''<div id=\"root\">Type'', ''Error</div>''])
   \<and> sublist ''TypeError'' (concat [''<div id=\"root\">Type'', ''Error</div>''])
   \<and> snd (testRuntime
         \<lparr>build_dir_exists = True, probe = Response [''<div id=\"root\">Type'', ''Error</div>'']\<rparr>)
       = ProcessExit 1
   \<and> Console Err [Lit (sym_cross @ '' Runtime test failed: ''),
                  Msg (Error ''React runtime error detected in HTML output'')]
       \<in> set (fst (testRuntime
             \<lparr>build_dir_exists = True, probe = Response [''<div id=\"root\">Type'', ''Error</div>'']\<rparr>))"
proof -
  have r: "sublist ''id=\"root\"'' (concat [''<div id=\"root\">Type'', ''Error</div>''])"
    by (simp add: includes_str_sublist [symmetric])
  have t: "sublist ''TypeError'' (concat [''<div id=\"root\">Type'', ''Error</div>''])"
    by (simp add: includes_str_sublist [symmetric])
  show ?thesis
    using r t testRuntime_TypeError_with_root
          [of "\<lparr>build_dir_exists = True, probe = Response [''<div id=\"root\">Type'', ''Error</div>'']\<rparr>"
              "[''<div id=\"root\">Type'', ''Error</div>'']"]
    by simp
qed

text \<open>
  The successful run ends with the \<open>finally\<close> block: \<open>serve.kill()\<close> is the last event.
\<close>

lemma testRuntime_success:
  "testRuntime \<lparr>build_dir_exists = True, probe = Response [''<div id=\"root\"></div>'']\<rparr> =
     ([Console Log [Lit (sym_magnifier @ '' Testing runtime compatibility...'')],
       Spawn ''npx'' [''serve'', ''-s'', ''build'', ''-p'', ''3001''],
       SetTimeout 2000,
       HttpGet ''http://localhost:3001'',
       Console Log [Lit (sym_check @ '' Basic HTML structure looks good'')],
       Console Log [Lit (sym_check @ '' Runtime compatibility test passed'')],
       Kill],
      Normal)"
proof -
  have e: "on_end ''<div id=\"root\"></div>'' =
    ([Console Log [Lit (sym_check @ '' Basic HTML structure looks good'')]], Inr ())"
    by (simp add: on_end_def)
  show ?thesis
    by (simp add: testRuntime_def seq_def try_catch_def try_finally_def await_def
        testPromise_def received_def e)
qed

text \<open>
  C2. On a rejected probe the \<open>catch\<close> block calls \<open>process.exit(1)\<close>, which ends the
  process before the \<open>finally\<close> block runs: the server has been spawned and
  \<open>serve.kill()\<close> is never executed.
\<close>

theorem testRuntime_failure_skips_kill:
  "testRuntime \<lparr>build_dir_exists = True, probe = Response [''<html></html>'']\<rparr> =
     ([Console Log [Lit (sym_magnifier @ '' Testing runtime compatibility...'')],
       Spawn ''npx'' [''serve'', ''-s'', ''build'', ''-p'', ''3001''],
       SetTimeout 2000,
       HttpGet ''http://localhost:3001'',
       Console Err [Lit (sym_cross @ '' Runtime test failed: ''),
                    Msg (Error ''React app root element not found'')],
       Console Err [Lit ''This suggests React 19 + ReactDOM 17 compatibility issues.''],
       Console Err [Lit ''Consider upgrading ReactDOM to match React version.'']],
      ProcessExit 1)
   \<and> Spawn ''npx'' [''serve'', ''-s'', ''build'', ''-p'', ''3001'']
       \<in> set (fst (testRuntime \<lparr>build_dir_exists = True, probe = Response [''<html></html>'']\<rparr>))
   \<and> Kill \<notin> set (fst (testRuntime \<lparr>build_dir_exists = True, probe = Response [''<html></html>'']\<rparr>))"
proof -
  have e: "on_end ''<html></html>'' = ([], Inl (Error ''React app root element not found''))"
    by (simp add: on_end_def)
  show ?thesis
    by (simp add: testRuntime_def seq_def try_catch_def try_finally_def await_def
        testPromise_def received_def e)
qed


section \<open>Properties of the version validator\<close>


lemma dot_not_digit: "\<not> is_digit (CHR ''.'')"
  by (simp add: is_digit_def)

lemma match_here_Some:
  assumes "match_here s = Some (d1, d2, d3)"
  shows "\<exists>q. s = d1 @ ''.'' @ d2 @ ''.'' @ d3 @ q \<and> d1 \<noteq> [] \<and> d2 \<noteq> [] \<and> d3 \<noteq> []
             \<and> (\<forall>c \<in> set (d1 @ d2 @ d3). is_digit c) \<and> d1 = takeWhile is_digit s"
proof -
  from assms obtain s2 s3 where r1: "dropWhile is_digit s = CHR ''.'' # s2"
    and d1: "d1 = takeWhile is_digit s" "d1 \<noteq> []"
    and r2: "dropWhile is_digit s2 = CHR ''.'' # s3"
    and d2: "d2 = takeWhile is_digit s2" "d2 \<noteq> []"
    and d3: "d3 = takeWhile is_digit s3" "d3 \<noteq> []"
    unfolding match_here_def Let_def
    by (simp split: if_splits list.splits)
  have "s = takeWhile is_digit s @ dropWhile is_digit s" by simp
  also have "\<dots> = d1 @ ''.'' @ s2" using r1 d1 by simp
  also have "s2 = takeWhile is_digit s2 @ dropWhile is_digit s2" by simp
  also have "\<dots> = d2 @ ''.'' @ s3" using r2 d2 by simp
  also have "s3 = d3 @ dropWhile is_digit s3" using d3 by simp
  finally have "s = d1 @ ''.'' @ d2 @ ''.'' @ d3 @ dropWhile is_digit s3" .
  moreover have "\<forall>c \<in> set (d1 @ d2 @ d3). is_digit c"
    using d1 d2 d3 by (auto dest: set_takeWhileD)
  ultimately show ?thesis using d1 d2 d3 by blast
qed

lemma match_here_complete:
  assumes "d1 \<noteq> []" "d2 \<noteq> []" "d3 \<noteq> []" "\<forall>c \<in> set (d1 @ d2 @ d3). is_digit c"
  shows "match_here (d1 @ ''.'' @ d2 @ ''.'' @ d3 @ q) = Some (d1, d2, d3 @ takeWhile is_digit q)"
proof -
  have a: "\<forall>c \<in> set d1. is_digit c" "\<forall>c \<in> set d2. is_digit c" "\<forall>c \<in> set d3. is_digit c"
    using assms(4) by auto
  show ?thesis
    using assms(1-3) a by (simp add: match_here_def dot_not_digit)
qed

lemma regex_match_Some:
  "regex_match s = Some (d1, d2, d3) \<Longrightarrow>
   \<exists>p q. s = p @ d1 @ ''.'' @ d2 @ ''.'' @ d3 @ q \<and> d1 \<noteq> [] \<and> d2 \<noteq> [] \<and> d3 \<noteq> []
          \<and> (\<forall>c \<in> set (d1 @ d2 @ d3). is_digit c)"
proof (induction s)
  case Nil
  then show ?case by simp
next
  case (Cons c cs)
  show ?case
  proof (cases "match_here (c # cs)")
    case None
    with Cons.prems have "regex_match cs = Some (d1, d2, d3)" by simp
    from Cons.IH [OF this] obtain p q where
      "cs = p @ d1 @ ''.'' @ d2 @ ''.'' @ d3 @ q" "d1 \<noteq> []" "d2 \<noteq> []" "d3 \<noteq> []"
      "\<forall>c \<in> set (d1 @ d2 @ d3). is_digit c" by blast
    then have "c # cs = (c # p) @ d1 @ ''.'' @ d2 @ ''.'' @ d3 @ q" by simp
    with \<open>d1 \<noteq> []\<close> \<open>d2 \<noteq> []\<close> \<open>d3 \<noteq> []\<close> \<open>\<forall>c \<in> set (d1 @ d2 @ d3). is_digit c\<close>
    show ?thesis by blast
  next
    case (Some m)
    with Cons.prems have "match_here (c # cs) = Some (d1, d2, d3)" by simp
    from match_here_Some [OF this] obtain q where
      q: "c # cs = d1 @ ''.'' @ d2 @ ''.'' @ d3 @ q" and "d1 \<noteq> []" "d2 \<noteq> []" "d3 \<noteq> []"
      "\<forall>c \<in> set (d1 @ d2 @ d3). is_digit c" by blast
    moreover from q have "c # cs = [] @ d1 @ ''.'' @ d2 @ ''.'' @ d3 @ q"
      by (simp only: append_Nil)
    ultimately show ?thesis by blast
  qed
qed

lemma match_here_Nil: "match_here [] = None"
  by (simp add: match_here_def)

lemma regex_match_here: "match_here s = Some m \<Longrightarrow> regex_match s = Some m"
  by (cases s) (simp_all add: match_here_Nil)

lemma regex_match_skip: "regex_match t \<noteq> None \<Longrightarrow> regex_match (p @ t) \<noteq> None"
  by (induction p) (auto split: option.splits)

lemma regex_match_None_iff: "regex_match s = None \<longleftrightarrow> \<not> contains_triple s"
proof
  assume n: "regex_match s = None"
  show "\<not> contains_triple s"
  proof
    assume "contains_triple s"
    then obtain p d1 d2 d3 q where s: "s = p @ d1 @ ''.'' @ d2 @ ''.'' @ d3 @ q"
      and d: "d1 \<noteq> []" "d2 \<noteq> []" "d3 \<noteq> []" "\<forall>c \<in> set (d1 @ d2 @ d3). is_digit c"
      unfolding contains_triple_def by blast
    have "regex_match (d1 @ ''.'' @ d2 @ ''.'' @ d3 @ q) \<noteq> None"
      using regex_match_here [OF match_here_complete [OF d]] by simp
    from regex_match_skip [OF this, of p] s n show False by simp
  qed
next
  assume c: "\<not> contains_triple s"
  show "regex_match s = None"
  proof (rule ccontr)
    assume "regex_match s \<noteq> None"
    then obtain d1 d2 d3 where "regex_match s = Some (d1, d2, d3)" by auto
    from regex_match_Some [OF this] c show False unfolding contains_triple_def by blast
  qed
qed

lemma parse_version_None_iff: "parse_version s = None \<longleftrightarrow> \<not> contains_triple s"
  using regex_match_None_iff [of s] by (auto simp: parse_version_def split: option.splits)


lemma validate_body_declares:
  assumes "declares env r d"
  shows "validate_body env =
     seq (if r = [] \<or> d = []
          then ([], Throw (Error ''React or ReactDOM not found in dependencies''))
          else ([], Normal))
    (seq ([Console Log [Lit (sym_package @ '' React version: ''), Val (Some (JString r))]], Normal)
    (seq ([Console Log [Lit (sym_package @ '' ReactDOM version: ''), Val (Some (JString d))]], Normal)
         (case (parse_version r, parse_version d) of
            (Some rv, Some dv) \<Rightarrow>
              seq (declared_check rv dv)
             (seq (installed_check env)
                  ([Console Log [Lit (sym_check @ '' React version compatibility check passed'')]],
                   Normal))
          | _ \<Rightarrow> ([], Throw (Error ''Unable to parse React version numbers'')))))"
proof -
  from assms obtain packageJson deps where
    p: "package_json env = Inr packageJson"
    and g: "get_prop (Some packageJson) ''dependencies'' = Inr deps"
    and r: "opt_prop deps ''react'' = Some (JString r)"
    and d: "opt_prop deps ''react-dom'' = Some (JString d)"
    unfolding declares_def by (auto split: sum.splits)
  show ?thesis
    unfolding validate_body_def
    by (simp add: p g r d eval_def console_def Let_def)
qed

lemma installed_check_no_throw:
  "snd (installed_check env) = Normal \<or> snd (installed_check env) = ProcessExit 1"
  unfolding installed_check_def try_catch_def eval_def seq_def console_def
  by (simp split: sum.splits completion.splits if_splits)

lemma installed_check_no_warn: "Console Warn ps \<notin> set (fst (installed_check env))"
  unfolding installed_check_def try_catch_def eval_def seq_def console_def
    installed_lines_def soft_warning_def
  by (simp split: sum.splits completion.splits if_splits)

lemmas parse_eval =
  parse_version_def match_here_def is_digit_def parseInt_def decimal_value_def digit_val_def
  to_double_def Let_def

lemma declares_declared_only: "declares (declared_only r d) r d"
  by (simp add: declares_def declared_only_def manifest_def)

lemma declares_with_installed: "declares (with_installed r d vr vd) r d"
  by (simp add: declares_def with_installed_def manifest_def)

lemma declares_with_broken_installed: "declares (with_broken_installed r d) r d"
  by (simp add: declares_def with_broken_installed_def manifest_def)

lemma installed_with_installed: "installed (with_installed r d vr vd) vr vd"
  by (simp add: installed_def with_installed_def)

lemma parse_version_nonempty: "parse_version s = Some v \<Longrightarrow> s \<noteq> []"
  by (auto simp: parse_version_def)

text \<open>The run when the declared versions pass the check of line 49.\<close>

lemma validate_declared_pass:
  assumes "declares env r d"
    and "parse_version r = Some rv"
    and "parse_version d = Some dv"
    and "\<not> (major rv = Finite 19 \<and> major dv = Finite 17)"
  shows "validateReactVersions env =
           ([Console Log [Lit (sym_magnifier @ '' Validating React version compatibility...'')],
             Console Log [Lit (sym_package @ '' React version: ''), Val (Some (JString r))],
             Console Log [Lit (sym_package @ '' ReactDOM version: ''), Val (Some (JString d))]]
            @ (if major rv \<noteq> major dv then mismatch_lines rv dv else [])
            @ fst (installed_check env)
            @ (if snd (installed_check env) = Normal
               then [Console Log [Lit (sym_check @ '' React version compatibility check passed'')]]
               else []),
            snd (installed_check env))"
proof -
  have ne: "r \<noteq> []" "d \<noteq> []"
    using assms(2,3) by (auto dest: parse_version_nonempty)
  show ?thesis
    using installed_check_no_throw [of env] ne assms(2-4)
    by (auto simp add: validateReactVersions_def validate_body_declares [OF assms(1)]
        declared_check_def seq_def try_catch_def)
qed

text \<open>
  C1. When the declared version strings parse to the majors 19 (\<open>react\<close>) and 17
  (\<open>react-dom\<close>), whatever the minors and patches, \<open>validateReactVersions\<close> prints the
  CRITICAL diagnostic and exits with code 1. The run is the three opening lines followed
  by the nine \<open>console.error\<close> lines of the diagnostic: the known incompatibility, the
  two remedies (upgrade \<open>react-dom\<close> to 19, or downgrade \<open>react\<close> to 17) and the
  build-failed line.
\<close>

theorem validate_19_17_critical:
  assumes "declares env r d"
    and "parse_version r = Some rv"
    and "parse_version d = Some dv"
    and "major rv = Finite 19"
    and "major dv = Finite 17"
  shows "validateReactVersions env =
           ([Console Log [Lit (sym_magnifier @ '' Validating React version compatibility...'')],
             Console Log [Lit (sym_package @ '' React version: ''), Val (Some (JString r))],
             Console Log [Lit (sym_package @ '' ReactDOM version: ''), Val (Some (JString d))],
             Console Err [Lit (sym_cross @ '' CRITICAL: React 19 + ReactDOM 17 detected!'')],
             Console Err [Lit (sym_cross @
               '' This causes runtime error: \"Cannot read properties of undefined (reading 'ReactCurrentDispatcher')\"'')],
             Console Err [Lit (sym_cross @ '' React 19 internal APIs are incompatible with ReactDOM 17'')],
             Console Err [Lit []],
             Console Err [Lit (sym_wrench @ '' SOLUTION OPTIONS:'')],
             Console Err [Lit ''   1. Upgrade react-dom to 19.x.x (recommended)''],
             Console Err [Lit ''   2. Downgrade react to 17.x.x''],
             Console Err [Lit []],
             Console Err [Lit (sym_siren @
               '' BUILD FAILED: Fix React version compatibility before proceeding'')]],
            ProcessExit 1)
         \<and> exit_code (snd (validateReactVersions env)) = 1"
proof -
  from assms(2) have "r \<noteq> []" by (auto simp: parse_version_def)
  moreover from assms(3) have "d \<noteq> []" by (auto simp: parse_version_def)
  ultimately show ?thesis
    using assms(2-5)
    by (simp add: validateReactVersions_def validate_body_declares [OF assms(1)]
        declared_check_def critical_lines_def seq_def try_catch_def)
qed

theorem validate_19_17_critical_witness:
  "declares (declared_only ''^19.1.0'' ''~17.0.2'') ''^19.1.0'' ''~17.0.2''
   \<and> parse_version ''^19.1.0'' = Some \<lparr>major = Finite 19, minor = Finite 1, patch = Finite 0\<rparr>
   \<and> parse_version ''~17.0.2'' = Some \<lparr>major = Finite 17, minor = Finite 0, patch = Finite 2\<rparr>
   \<and> validateReactVersions (declared_only ''^19.1.0'' ''~17.0.2'') =
           ([Console Log [Lit (sym_magnifier @ '' Validating React version compatibility...'')],
             Console Log [Lit (sym_package @ '' React version: ''), Val (Some (JString ''^19.1.0''))],
             Console Log [Lit (sym_package @ '' ReactDOM version: ''), Val (Some (JString ''~17.0.2''))],
             Console Err [Lit (sym_cross @ '' CRITICAL: React 19 + ReactDOM 17 detected!'')],
             Console Err [Lit (sym_cross @
               '' This causes runtime error: \"Cannot read properties of undefined (reading 'ReactCurrentDispatcher')\"'')],
             Console Err [Lit (sym_cross @ '' React 19 internal APIs are incompatible with ReactDOM 17'')],
             Console Err [Lit []],
             Console Err [Lit (sym_wrench @ '' SOLUTION OPTIONS:'')],
             Console Err [Lit ''   1. Upgrade react-dom to 19.x.x (recommended)''],
             Console Err [Lit ''   2. Downgrade react to 17.x.x''],
             Console Err [Lit []],
             Console Err [Lit (sym_siren @
               '' BUILD FAILED: Fix React version compatibility before proceeding'')]],
            ProcessExit 1)
   \<and> exit_code (snd (validateReactVersions (declared_only ''^19.1.0'' ''~17.0.2''))) = 1"
proof -
  have r: "parse_version ''^19.1.0'' = Some \<lparr>major = Finite 19, minor = Finite 1, patch = Finite 0\<rparr>"
    by (simp add: parse_eval)
  have d: "parse_version ''~17.0.2'' = Some \<lparr>major = Finite 17, minor = Finite 0, patch = Finite 2\<rparr>"
    by (simp add: parse_eval)
  show ?thesis
    using validate_19_17_critical [OF declares_declared_only r d] r d declares_declared_only
    by simp
qed

lemma installed_check_absent:
  "\<not> (installed_react_exists env \<and> installed_react_dom_exists env) \<Longrightarrow>
   installed_check env = ([], Normal)"
  by (auto simp add: installed_check_def try_catch_def)

lemma installed_check_read_fails:
  assumes "installed_react_exists env" "installed_react_dom_exists env"
    and "isl (installed_react_json env) \<or> isl (installed_react_dom_json env)"
  shows "installed_check env = ([soft_warning], Normal)"
  using assms
  by (auto simp add: installed_check_def try_catch_def eval_def isl_def split: sum.splits)

lemma installed_check_installed:
  assumes "installed env vr vd"
  shows "installed_check env =
           ([Console Log [Lit (sym_package @ '' Installed React: ''), Val (Some (JString vr))],
             Console Log [Lit (sym_package @ '' Installed ReactDOM: ''), Val (Some (JString vd))]]
            @ (if startsWith vr ''19.'' \<and> startsWith vd ''17.'' then installed_lines else []),
            if startsWith vr ''19.'' \<and> startsWith vd ''17.'' then ProcessExit 1 else Normal)"
proof -
  from assms obtain a b where e: "installed_react_exists env" "installed_react_dom_exists env"
    and a: "installed_react_json env = Inr a" and b: "installed_react_dom_json env = Inr b"
    and va: "get_prop (Some a) ''version'' = Inr (Some (JString vr))"
    and vb: "get_prop (Some b) ''version'' = Inr (Some (JString vd))"
    unfolding installed_def by (auto split: sum.splits)
  show ?thesis
    unfolding installed_check_def
    by (simp add: e a b va vb eval_def console_def seq_def try_catch_def)
qed

lemma soft_warning_not_opening:
  "soft_warning \<noteq> Console Log [Lit (sym_magnifier @ '' Validating React version compatibility...'')]"
  "soft_warning \<noteq> Console Log [Lit (sym_package @ '' React version: ''), Val v]"
  "soft_warning \<noteq> Console Log [Lit (sym_package @ '' ReactDOM version: ''), Val v]"
  "soft_warning \<noteq> Console Log [Lit (sym_check @ '' React version compatibility check passed'')]"
  "soft_warning \<notin> set (mismatch_lines rv dv)"
  by (simp_all add: soft_warning_def mismatch_lines_def sym_warning_def sym_magnifier_def
      sym_check_def)

lemma soft_warning_not_installed:
  "soft_warning \<noteq> Console Log [Lit (sym_package @ '' Installed React: ''), Val v]"
  "soft_warning \<noteq> Console Log [Lit (sym_package @ '' Installed ReactDOM: ''), Val v]"
  by (simp_all add: soft_warning_def)

text \<open>
  C5. The claim as written fails when the cross-check is skipped because a read threw:
  with equal majors and installed metadata that is not valid JSON, the script returns
  normally and prints the line "Could not check installed versions in node_modules".
\<close>

theorem validate_equal_majors_soft_warning:
  "declares (with_broken_installed ''18.3.1'' ''^18.0.0'') ''18.3.1'' ''^18.0.0''
   \<and> parse_version ''18.3.1'' = Some \<lparr>major = Finite 18, minor = Finite 3, patch = Finite 1\<rparr>
   \<and> parse_version ''^18.0.0'' = Some \<lparr>major = Finite 18, minor = Finite 0, patch = Finite 0\<rparr>
   \<and> snd (installed_check (with_broken_installed ''18.3.1'' ''^18.0.0'')) = Normal
   \<and> validateReactVersions (with_broken_installed ''18.3.1'' ''^18.0.0'') =
        ([Console Log [Lit (sym_magnifier @ '' Validating React version compatibility...'')],
          Console Log [Lit (sym_package @ '' React version: ''), Val (Some (JString ''18.3.1''))],
          Console Log [Lit (sym_package @ '' ReactDOM version: ''), Val (Some (JString ''^18.0.0''))],
          Console Log [Lit (sym_warning @ ''  Could not check installed versions in node_modules'')],
          Console Log [Lit (sym_check @ '' React version compatibility check passed'')]],
         Normal)
   \<and> Console Log [Lit (sym_warning @ ''  Could not check installed versions in node_modules'')]
       \<in> set (fst (validateReactVersions (with_broken_installed ''18.3.1'' ''^18.0.0'')))"
proof -
  have r: "parse_version ''18.3.1'' = Some \<lparr>major = Finite 18, minor = Finite 3, patch = Finite 1\<rparr>"
    by (simp add: parse_eval)
  have d: "parse_version ''^18.0.0'' = Some \<lparr>major = Finite 18, minor = Finite 0, patch = Finite 0\<rparr>"
    by (simp add: parse_eval)
  have n: "\<not> (major \<lparr>major = Finite 18, minor = Finite 3, patch = Finite 1\<rparr> = Finite 19
       \<and> major \<lparr>major = Finite 18, minor = Finite 0, patch = Finite 0\<rparr> = Finite 17)"
    by simp
  have i: "installed_check (with_broken_installed ''18.3.1'' ''^18.0.0'') = ([soft_warning], Normal)"
    by (rule installed_check_read_fails) (simp_all add: with_broken_installed_def)
  have run: "validateReactVersions (with_broken_installed ''18.3.1'' ''^18.0.0'') =
        ([Console Log [Lit (sym_magnifier @ '' Validating React version compatibility...'')],
          Console Log [Lit (sym_package @ '' React version: ''), Val (Some (JString ''18.3.1''))],
          Console Log [Lit (sym_package @ '' ReactDOM version: ''), Val (Some (JString ''^18.0.0''))],
          Console Log [Lit (sym_warning @ ''  Could not check installed versions in node_modules'')],
          Console Log [Lit (sym_check @ '' React version compatibility check passed'')]],
         Normal)"
    by (simp add: validate_declared_pass [OF declares_with_broken_installed r d n] i
        soft_warning_def)
  show ?thesis
    using r d i declares_with_broken_installed [of "''18.3.1''" "''^18.0.0''"]
    by (simp add: run)
qed

text \<open>
  C5, as the code has it. When both declared version strings parse and their majors are
  equal, and the check of the installed packages does not fail, \<open>validateReactVersions\<close>
  returns normally (exit code 0) and prints no \<open>console.warn\<close> line, so no
  major-version-mismatch warning: the run is the three opening lines, the lines of the
  installed check and the confirmation. It prints no warning line of any kind when the
  installed metadata files are absent, and when both are read with version strings (the
  cross-check passes). It does print the soft warning "Could not check installed versions
  in node_modules" when both files exist and reading or parsing one of them throws.
\<close>

theorem validate_equal_majors_pass:
  assumes "declares env r d"
    and "parse_version r = Some rv"
    and "parse_version d = Some dv"
    and "major rv = major dv"
    and "snd (installed_check env) = Normal"
  shows "validateReactVersions env =
           ([Console Log [Lit (sym_magnifier @ '' Validating React version compatibility...'')],
             Console Log [Lit (sym_package @ '' React version: ''), Val (Some (JString r))],
             Console Log [Lit (sym_package @ '' ReactDOM version: ''), Val (Some (JString d))]]
            @ fst (installed_check env)
            @ [Console Log [Lit (sym_check @ '' React version compatibility check passed'')]],
            Normal)
         \<and> exit_code (snd (validateReactVersions env)) = 0
         \<and> (\<forall>ps. Console Warn ps \<notin> set (fst (validateReactVersions env)))
         \<and> (\<not> (installed_react_exists env \<and> installed_react_dom_exists env) \<longrightarrow>
              Console Log [Lit (sym_warning @ ''  Could not check installed versions in node_modules'')]
                \<notin> set (fst (validateReactVersions env)))
         \<and> (\<forall>vr vd. installed env vr vd \<longrightarrow>
              Console Log [Lit (sym_warning @ ''  Could not check installed versions in node_modules'')]
                \<notin> set (fst (validateReactVersions env)))
         \<and> (installed_react_exists env \<and> installed_react_dom_exists env \<and>
              (isl (installed_react_json env) \<or> isl (installed_react_dom_json env)) \<longrightarrow>
              Console Log [Lit (sym_warning @ ''  Could not check installed versions in node_modules'')]
                \<in> set (fst (validateReactVersions env)))"
proof -
  have n: "\<not> (major rv = Finite 19 \<and> major dv = Finite 17)"
    using assms(4) by auto
  have run: "validateReactVersions env =
           ([Console Log [Lit (sym_magnifier @ '' Validating React version compatibility...'')],
             Console Log [Lit (sym_package @ '' React version: ''), Val (Some (JString r))],
             Console Log [Lit (sym_package @ '' ReactDOM version: ''), Val (Some (JString d))]]
            @ fst (installed_check env)
            @ [Console Log [Lit (sym_check @ '' React version compatibility check passed'')]],
            Normal)"
    using assms(4,5) by (simp add: validate_declared_pass [OF assms(1-3) n])
  have sw: "soft_warning \<in> set (fst (validateReactVersions env))
      \<longleftrightarrow> soft_warning \<in> set (fst (installed_check env))"
    using soft_warning_not_opening(1,4) soft_warning_not_opening(2,3) [of "Some (JString r)"]
      soft_warning_not_opening(3) [of "Some (JString d)"]
    by (auto simp add: run)
  have code: "exit_code (snd (validateReactVersions env)) = 0"
    by (simp add: run)
  have warn: "\<forall>ps. Console Warn ps \<notin> set (fst (validateReactVersions env))"
    using installed_check_no_warn [of _ env] by (simp add: run)
  have absent: "soft_warning \<notin> set (fst (validateReactVersions env))"
    if "\<not> (installed_react_exists env \<and> installed_react_dom_exists env)"
    using installed_check_absent [OF that] by (simp add: sw)
  have passing: "soft_warning \<notin> set (fst (validateReactVersions env))"
    if "installed env vr vd" for vr vd
  proof -
    have "\<not> (startsWith vr ''19.'' \<and> startsWith vd ''17.'')"
      using assms(5) installed_check_installed [OF that] by (auto split: if_splits)
    then show ?thesis
      using soft_warning_not_installed(1) [of "Some (JString vr)"]
        soft_warning_not_installed(2) [of "Some (JString vd)"]
      by (auto simp add: sw installed_check_installed [OF that])
  qed
  have thrown: "soft_warning \<in> set (fst (validateReactVersions env))"
    if "installed_react_exists env \<and> installed_react_dom_exists env \<and>
        (isl (installed_react_json env) \<or> isl (installed_react_dom_json env))"
    using that by (simp add: sw installed_check_read_fails)
  show ?thesis
    using run code warn absent passing thrown unfolding soft_warning_def by blast
qed

theorem validate_equal_majors_pass_witness:
  "declares (with_installed ''^18.2.0'' ''18.3.1'' ''18.2.0'' ''18.3.1'') ''^18.2.0'' ''18.3.1''
   \<and> parse_version ''^18.2.0'' = Some \<lparr>major = Finite 18, minor = Finite 2, patch = Finite 0\<rparr>
   \<and> parse_version ''18.3.1'' = Some \<lparr>major = Finite 18, minor = Finite 3, patch = Finite 1\<rparr>
   \<and> snd (installed_check (with_installed ''^18.2.0'' ''18.3.1'' ''18.2.0'' ''18.3.1'')) = Normal
   \<and> installed (with_installed ''^18.2.0'' ''18.3.1'' ''18.2.0'' ''18.3.1'') ''18.2.0'' ''18.3.1''
   \<and> validateReactVersions (with_installed ''^18.2.0'' ''18.3.1'' ''18.2.0'' ''18.3.1'') =
        ([Console Log [Lit (sym_magnifier @ '' Validating React version compatibility...'')],
          Console Log [Lit (sym_package @ '' React version: ''), Val (Some (JString ''^18.2.0''))],
          Console Log [Lit (sym_package @ '' ReactDOM version: ''), Val (Some (JString ''18.3.1''))],
          Console Log [Lit (sym_package @ '' Installed React: ''), Val (Some (JString ''18.2.0''))],
          Console Log [Lit (sym_package @ '' Installed ReactDOM: ''), Val (Some (JString ''18.3.1''))],
          Console Log [Lit (sym_check @ '' React version compatibility check passed'')]],
         Normal)
   \<and> exit_code (snd (validateReactVersions
         (with_installed ''^18.2.0'' ''18.3.1'' ''18.2.0'' ''18.3.1''))) = 0
   \<and> (\<forall>ps. Console Warn ps \<notin> set (fst (validateReactVersions
         (with_installed ''^18.2.0'' ''18.3.1'' ''18.2.0'' ''18.3.1''))))
   \<and> Console Log [Lit (sym_warning @ ''  Could not check installed versions in node_modules'')]
       \<notin> set (fst (validateReactVersions
             (with_installed ''^18.2.0'' ''18.3.1'' ''18.2.0'' ''18.3.1'')))"
proof -
  have r: "parse_version ''^18.2.0'' = Some \<lparr>major = Finite 18, minor = Finite 2, patch = Finite 0\<rparr>"
    by (simp add: parse_eval)
  have d: "parse_version ''18.3.1'' = Some \<lparr>major = Finite 18, minor = Finite 3, patch = Finite 1\<rparr>"
    by (simp add: parse_eval)
  have i: "installed_check (with_installed ''^18.2.0'' ''18.3.1'' ''18.2.0'' ''18.3.1'') =
    ([Console Log [Lit (sym_package @ '' Installed React: ''), Val (Some (JString ''18.2.0''))],
      Console Log [Lit (sym_package @ '' Installed ReactDOM: ''), Val (Some (JString ''18.3.1''))]],
     Normal)"
    by (simp add: installed_check_installed [OF installed_with_installed] startsWith_def)
  have m: "major \<lparr>major = Finite 18, minor = Finite 2, patch = Finite 0\<rparr>
      = major \<lparr>major = Finite 18, minor = Finite 3, patch = Finite 1\<rparr>"
    by simp
  have n: "snd (installed_check (with_installed ''^18.2.0'' ''18.3.1'' ''18.2.0'' ''18.3.1''))
      = Normal"
    by (simp add: i)
  have t: "installed (with_installed ''^18.2.0'' ''18.3.1'' ''18.2.0'' ''18.3.1'') ''18.2.0'' ''18.3.1''"
    by (rule installed_with_installed)
  from validate_equal_majors_pass [OF declares_with_installed r d m n]
  have "validateReactVersions (with_installed ''^18.2.0'' ''18.3.1'' ''18.2.0'' ''18.3.1'') =
        ([Console Log [Lit (sym_magnifier @ '' Validating React version compatibility...'')],
          Console Log [Lit (sym_package @ '' React version: ''), Val (Some (JString ''^18.2.0''))],
          Console Log [Lit (sym_package @ '' ReactDOM version: ''), Val (Some (JString ''18.3.1''))]]
         @ fst (installed_check (with_installed ''^18.2.0'' ''18.3.1'' ''18.2.0'' ''18.3.1''))
         @ [Console Log [Lit (sym_check @ '' React version compatibility check passed'')]],
         Normal)"
    and "exit_code (snd (validateReactVersions
         (with_installed ''^18.2.0'' ''18.3.1'' ''18.2.0'' ''18.3.1''))) = 0"
    and "\<forall>ps. Console Warn ps \<notin> set (fst (validateReactVersions
         (with_installed ''^18.2.0'' ''18.3.1'' ''18.2.0'' ''18.3.1'')))"
    and "Console Log [Lit (sym_warning @ ''  Could not check installed versions in node_modules'')]
       \<notin> set (fst (validateReactVersions
             (with_installed ''^18.2.0'' ''18.3.1'' ''18.2.0'' ''18.3.1'')))"
    using t by blast+
  then show ?thesis
    using r d n t declares_with_installed [of "''^18.2.0''" "''18.3.1''" "''18.2.0''" "''18.3.1''"]
    by (simp add: i)
qed



text \<open>
  C7. When at least one declared version string contains no three dot-separated groups of
  digits, \<open>validateReactVersions\<close> exits with code 1 through its \<open>catch\<close> block, which
  prints the validation-failed line; no exception leaves the function.
\<close>

theorem validate_malformed_exits_1:
  assumes "declares env r d"
    and "\<not> contains_triple r \<or> \<not> contains_triple d"
  shows "validateReactVersions env =
           (if r = [] \<or> d = [] then
              ([Console Log [Lit (sym_magnifier @ '' Validating React version compatibility...'')],
                Console Err [Lit (sym_cross @ '' React version validation failed: ''),
                             Msg (Error ''React or ReactDOM not found in dependencies'')]],
               ProcessExit 1)
            else
              ([Console Log [Lit (sym_magnifier @ '' Validating React version compatibility...'')],
                Console Log [Lit (sym_package @ '' React version: ''), Val (Some (JString r))],
                Console Log [Lit (sym_package @ '' ReactDOM version: ''), Val (Some (JString d))],
                Console Err [Lit (sym_cross @ '' React version validation failed: ''),
                             Msg (Error ''Unable to parse React version numbers'')]],
               ProcessExit 1))
         \<and> exit_code (snd (validateReactVersions env)) = 1
         \<and> (\<forall>e. snd (validateReactVersions env) \<noteq> Throw e)"
proof -
  from assms(2) have "parse_version r = None \<or> parse_version d = None"
    by (simp add: parse_version_None_iff)
  then show ?thesis
    by (auto simp add: validateReactVersions_def validate_body_declares [OF assms(1)]
        seq_def try_catch_def split: option.splits)
qed

theorem validate_malformed_exits_1_witness:
  "declares (declared_only ''latest'' ''17.0.2'') ''latest'' ''17.0.2''
   \<and> \<not> contains_triple ''latest''
   \<and> validateReactVersions (declared_only ''latest'' ''17.0.2'') =
        ([Console Log [Lit (sym_magnifier @ '' Validating React version compatibility...'')],
          Console Log [Lit (sym_package @ '' React version: ''), Val (Some (JString ''latest''))],
          Console Log [Lit (sym_package @ '' ReactDOM version: ''), Val (Some (JString ''17.0.2''))],
          Console Err [Lit (sym_cross @ '' React version validation failed: ''),
                       Msg (Error ''Unable to parse React version numbers'')]],
         ProcessExit 1)
   \<and> exit_code (snd (validateReactVersions (declared_only ''latest'' ''17.0.2''))) = 1"
proof -
  have "parse_version ''latest'' = None"
    by (simp add: parse_eval)
  then have c: "\<not> contains_triple ''latest''"
    by (simp add: parse_version_None_iff)
  then have "\<not> contains_triple ''latest'' \<or> \<not> contains_triple ''17.0.2''" by simp
  from validate_malformed_exits_1 [OF declares_declared_only this] c
    declares_declared_only [of "''latest''" "''17.0.2''"]
  show ?thesis by simp
qed

subsection \<open>The check of the installed packages\<close>

declare bit_length.simps [simp del]

lemma bit_length_gt: "2 ^ k \<le> n \<Longrightarrow> k < bit_length n"
proof (induction k arbitrary: n)
  case 0
  then show ?case by (subst bit_length.simps) simp
next
  case (Suc k)
  then have "2 ^ k \<le> n div 2" by simp
  moreover have "0 < n" using Suc.prems by (cases n) auto
  ultimately show ?case
    using Suc.IH [of "n div 2"] by (subst bit_length.simps) auto
qed

lemma to_double_odd:
  assumes "odd k"
  shows "to_double n = Finite k \<longleftrightarrow> n = k \<and> n < 2 ^ 53"
proof (cases "n < 2 ^ 53")
  case True
  then show ?thesis by (auto simp: to_double_def)
next
  case False
  then have "53 < bit_length n" by (intro bit_length_gt) simp
  then have "even (2 ^ (bit_length n - 53) :: nat)" by simp
  then have "\<And>m. m * 2 ^ (bit_length n - 53) \<noteq> k"
    using assms by (metis even_mult_iff)
  with False show ?thesis
    by (simp add: to_double_def Let_def)
qed

lemma to_double_19: "to_double n = Finite 19 \<longleftrightarrow> n = 19"
  using to_double_odd [of 19 n] by auto

lemma to_double_17: "to_double n = Finite 17 \<longleftrightarrow> n = 17"
  using to_double_odd [of 17 n] by auto

lemma digit_val_le: "is_digit c \<Longrightarrow> digit_val c \<le> 9"
  by (auto simp: is_digit_def digit_val_def)

lemma digit_val_inj:
  assumes "is_digit a" "is_digit b" "digit_val a = digit_val b"
  shows "a = b"
proof -
  have "x = y" if "x - 48 = y - 48" "48 \<le> x" "48 \<le> y" for x y :: nat
    using that by arith
  from this [of "of_char a" "of_char b"] assms show ?thesis
    by (simp add: is_digit_def digit_val_def)
qed

lemma two_digit_eq:
  fixes a b p q :: nat
  assumes "10 * a + b = 10 * p + q" "b \<le> 9" "q \<le> 9"
  shows "a = p \<and> b = q"
  using assms by arith

lemma foldl_decimal_ge: "a \<le> foldl (\<lambda>n c. 10 * n + digit_val c) a ds"
proof (induction ds arbitrary: a)
  case Nil
  then show ?case by simp
next
  case (Cons c cs)
  have "a \<le> 10 * a + digit_val c" by simp
  also have "\<dots> \<le> foldl (\<lambda>n c. 10 * n + digit_val c) (10 * a + digit_val c) cs"
    by (rule Cons.IH)
  finally show ?case by simp
qed

text \<open>
  A run of digits without a leading zero has the value of the two digits \<open>p\<close> and
  \<open>q\<close> only if it is \<open>pq\<close>.
\<close>

lemma decimal_two_digits:
  assumes dig: "\<forall>c \<in> set ds. is_digit c"
    and ne: "ds \<noteq> []"
    and lead: "ds = ''0'' \<or> take 1 ds \<noteq> ''0''"
    and p: "is_digit p" "p \<noteq> CHR ''0''" and q: "is_digit q"
  shows "decimal_value ds = 10 * digit_val p + digit_val q \<longleftrightarrow> ds = [p, q]"
proof
  assume "ds = [p, q]"
  then show "decimal_value ds = 10 * digit_val p + digit_val q"
    by (simp add: decimal_value_def)
next
  assume v: "decimal_value ds = 10 * digit_val p + digit_val q"
  have z: "is_digit (CHR ''0'')" "digit_val (CHR ''0'') = 0"
    by (simp_all add: is_digit_def digit_val_def)
  have p1: "1 \<le> digit_val p"
    using digit_val_inj [OF p(1) z(1)] p(2) z(2) by (cases "digit_val p = 0") auto
  from ne obtain a r1 where ds: "ds = a # r1" by (cases ds) auto
  have a: "is_digit a" using dig ds by simp
  show "ds = [p, q]"
  proof (cases r1)
    case Nil
    with ds v have "digit_val a = 10 * digit_val p + digit_val q" by (simp add: decimal_value_def)
    with digit_val_le [OF a] p1 show ?thesis by simp
  next
    case (Cons b r2)
    have b: "is_digit b" using dig ds Cons by simp
    have a0: "a \<noteq> CHR ''0''" using lead ds Cons by auto
    have a1: "1 \<le> digit_val a"
      using digit_val_inj [OF a z(1)] a0 z(2) by (cases "digit_val a = 0") auto
    show ?thesis
    proof (cases r2)
      case Nil
      with ds Cons v have "10 * digit_val a + digit_val b = 10 * digit_val p + digit_val q"
        by (simp add: decimal_value_def)
      with digit_val_le [OF b] digit_val_le [OF q]
      have "digit_val a = digit_val p" "digit_val b = digit_val q"
        using two_digit_eq [of "digit_val a" "digit_val b" "digit_val p" "digit_val q"] by blast+
      with digit_val_inj [OF a p(1)] digit_val_inj [OF b q] ds Cons Nil show ?thesis by simp
    next
      case (Cons c r3)
      have "ds = a # b # c # r3"
        using ds \<open>r1 = b # r2\<close> Cons by simp
      then have "decimal_value ds =
          foldl (\<lambda>n c. 10 * n + digit_val c) (10 * (10 * digit_val a + digit_val b) + digit_val c) r3"
        by (simp add: decimal_value_def)
      then have "10 * (10 * digit_val a + digit_val b) + digit_val c \<le> decimal_value ds"
        using foldl_decimal_ge [of "10 * (10 * digit_val a + digit_val b) + digit_val c" r3]
        by (simp only:)
      moreover have "100 * digit_val a \<le> 10 * (10 * digit_val a + digit_val b) + digit_val c"
        by simp
      ultimately have "100 * digit_val a \<le> decimal_value ds" by (rule order_trans [rotated])
      with a1 v digit_val_le [OF p(1)] digit_val_le [OF q] have False by linarith
      then show ?thesis ..
    qed
  qed
qed

lemma decimal_19:
  assumes "\<forall>c \<in> set ds. is_digit c" "ds \<noteq> []" "ds = ''0'' \<or> take 1 ds \<noteq> ''0''"
  shows "decimal_value ds = 19 \<longleftrightarrow> ds = ''19''"
  using decimal_two_digits [OF assms, of "CHR ''1''" "CHR ''9''"]
  by (simp add: is_digit_def digit_val_def)

lemma decimal_17:
  assumes "\<forall>c \<in> set ds. is_digit c" "ds \<noteq> []" "ds = ''0'' \<or> take 1 ds \<noteq> ''0''"
  shows "decimal_value ds = 17 \<longleftrightarrow> ds = ''17''"
  using decimal_two_digits [OF assms, of "CHR ''1''" "CHR ''7''"]
  by (simp add: is_digit_def digit_val_def)

lemma startsWith_two_digits:
  assumes "\<forall>c \<in> set ds. is_digit c" "is_digit a" "is_digit b"
  shows "startsWith (ds @ ''.'' @ rest) [a, b, CHR ''.''] \<longleftrightarrow> ds = [a, b]"
proof (cases ds)
  case Nil
  with assms show ?thesis by (auto simp: startsWith_def dot_not_digit)
next
  case c1: (Cons x r1)
  show ?thesis
  proof (cases r1)
    case Nil
    with c1 assms show ?thesis by (auto simp: startsWith_def dot_not_digit)
  next
    case c2: (Cons y r2)
    show ?thesis
    proof (cases r2)
      case Nil
      with c1 c2 assms show ?thesis by (auto simp: startsWith_def)
    next
      case (Cons z r3)
      with c1 c2 assms show ?thesis by (auto simp: startsWith_def dot_not_digit)
    qed
  qed
qed


lemma plain_version_parts:
  assumes "plain_version s"
  shows "\<exists>d1 d2 d3 rest.
           parse_version s = Some \<lparr>major = parseInt d1, minor = parseInt d2, patch = parseInt d3\<rparr>
           \<and> s = d1 @ ''.'' @ rest \<and> (\<forall>c \<in> set d1. is_digit c) \<and> d1 \<noteq> []
           \<and> (d1 = ''0'' \<or> take 1 d1 \<noteq> ''0'')"
proof -
  from assms obtain d1 d2 d3 where m: "match_here s = Some (d1, d2, d3)"
    and z: "d1 = ''0'' \<or> take 1 d1 \<noteq> ''0''"
    unfolding plain_version_def by (auto split: option.splits)
  from match_here_Some [OF m] obtain q where
    q: "s = d1 @ ''.'' @ d2 @ ''.'' @ d3 @ q" and n: "d1 \<noteq> []"
    and g: "\<forall>c \<in> set (d1 @ d2 @ d3). is_digit c" by blast
  have "parse_version s = Some \<lparr>major = parseInt d1, minor = parseInt d2, patch = parseInt d3\<rparr>"
    using regex_match_here [OF m] by (simp add: parse_version_def)
  moreover from g have "\<forall>c \<in> set d1. is_digit c" by simp
  ultimately show ?thesis using q n z by blast
qed

lemma plain_major_19:
  assumes "plain_version s"
  shows "(\<exists>v. parse_version s = Some v \<and> major v = Finite 19) \<longleftrightarrow> startsWith s ''19.''"
proof -
  from plain_version_parts [OF assms] obtain d1 d2 d3 rest where
    p: "parse_version s = Some \<lparr>major = parseInt d1, minor = parseInt d2, patch = parseInt d3\<rparr>"
    and s: "s = d1 @ ''.'' @ rest" and g: "\<forall>c \<in> set d1. is_digit c" and n: "d1 \<noteq> []"
    and z: "d1 = ''0'' \<or> take 1 d1 \<noteq> ''0''" by blast
  have "startsWith s ''19.'' \<longleftrightarrow> d1 = ''19''"
    unfolding s using startsWith_two_digits [OF g, of "CHR ''1''" "CHR ''9''" rest]
    by (simp add: is_digit_def)
  moreover have "parseInt d1 = Finite 19 \<longleftrightarrow> d1 = ''19''"
    using decimal_19 [OF g n z] by (simp add: parseInt_def to_double_19)
  ultimately show ?thesis using p by simp
qed

lemma plain_major_17:
  assumes "plain_version s"
  shows "(\<exists>v. parse_version s = Some v \<and> major v = Finite 17) \<longleftrightarrow> startsWith s ''17.''"
proof -
  from plain_version_parts [OF assms] obtain d1 d2 d3 rest where
    p: "parse_version s = Some \<lparr>major = parseInt d1, minor = parseInt d2, patch = parseInt d3\<rparr>"
    and s: "s = d1 @ ''.'' @ rest" and g: "\<forall>c \<in> set d1. is_digit c" and n: "d1 \<noteq> []"
    and z: "d1 = ''0'' \<or> take 1 d1 \<noteq> ''0''" by blast
  have "startsWith s ''17.'' \<longleftrightarrow> d1 = ''17''"
    unfolding s using startsWith_two_digits [OF g, of "CHR ''1''" "CHR ''7''" rest]
    by (simp add: is_digit_def)
  moreover have "parseInt d1 = Finite 17 \<longleftrightarrow> d1 = ''17''"
    using decimal_17 [OF g n z] by (simp add: parseInt_def to_double_17)
  ultimately show ?thesis using p by simp
qed

lemma plain_majors_19_17:
  assumes "plain_version vr" "plain_version vd"
  shows "majors_19_17 vr vd \<longleftrightarrow> startsWith vr ''19.'' \<and> startsWith vd ''17.''"
proof -
  have "majors_19_17 vr vd \<longleftrightarrow>
      (\<exists>v. parse_version vr = Some v \<and> major v = Finite 19) \<and>
      (\<exists>v. parse_version vd = Some v \<and> major v = Finite 17)"
    by (auto simp: majors_19_17_def split: option.splits)
  then show ?thesis
    by (simp only: plain_major_19 [OF assms(1)] plain_major_17 [OF assms(2)])
qed

text \<open>
  C8. The claim as written fails on installed versions written \<open>v19.0.0\<close> and
  \<open>v17.0.2\<close>: the majors check of the declared versions finds 19 and 17 in them, and
  the installed check lets them pass.
\<close>

theorem installed_check_v_prefix_passes:
  "installed (with_installed ''^18.2.0'' ''^18.2.0'' ''v19.0.0'' ''v17.0.2'') ''v19.0.0'' ''v17.0.2''
   \<and> majors_19_17 ''v19.0.0'' ''v17.0.2''
   \<and> snd (installed_check (with_installed ''^18.2.0'' ''^18.2.0'' ''v19.0.0'' ''v17.0.2'')) = Normal
   \<and> snd (validateReactVersions (with_installed ''^18.2.0'' ''^18.2.0'' ''v19.0.0'' ''v17.0.2''))
       = Normal"
proof -
  have m: "majors_19_17 ''v19.0.0'' ''v17.0.2''"
    by (simp add: majors_19_17_def parse_eval)
  have i: "snd (installed_check (with_installed ''^18.2.0'' ''^18.2.0'' ''v19.0.0'' ''v17.0.2''))
      = Normal"
    by (simp add: installed_check_installed [OF installed_with_installed] startsWith_def)
  have r: "parse_version ''^18.2.0'' = Some \<lparr>major = Finite 18, minor = Finite 2, patch = Finite 0\<rparr>"
    by (simp add: parse_eval)
  have "snd (validateReactVersions (with_installed ''^18.2.0'' ''^18.2.0'' ''v19.0.0'' ''v17.0.2''))
      = Normal"
    using i by (simp add: validate_declared_pass [OF declares_with_installed r r])
  with m i installed_with_installed show ?thesis by simp
qed

text \<open>
  C8, as the code has it. When the declared versions pass and both installed metadata
  files are read, with the version strings \<open>vr\<close> and \<open>vd\<close>, the script exits with
  code 1 (after the three lines about the installed packages) exactly when \<open>vr\<close> starts
  with \<open>19.\<close> and \<open>vd\<close> starts with \<open>17.\<close>. For version strings that begin with
  their numeric triple and whose major has no leading zero, this is the majors check of
  the declared versions.
\<close>

theorem validate_installed_prefix_rule:
  assumes "declares env r d"
    and "parse_version r = Some rv"
    and "parse_version d = Some dv"
    and "\<not> (major rv = Finite 19 \<and> major dv = Finite 17)"
    and "installed env vr vd"
  shows "validateReactVersions env =
           ([Console Log [Lit (sym_magnifier @ '' Validating React version compatibility...'')],
             Console Log [Lit (sym_package @ '' React version: ''), Val (Some (JString r))],
             Console Log [Lit (sym_package @ '' ReactDOM version: ''), Val (Some (JString d))]]
            @ (if major rv \<noteq> major dv then mismatch_lines rv dv else [])
            @ [Console Log [Lit (sym_package @ '' Installed React: ''), Val (Some (JString vr))],
               Console Log [Lit (sym_package @ '' Installed ReactDOM: ''), Val (Some (JString vd))]]
            @ (if startsWith vr ''19.'' \<and> startsWith vd ''17.'' then installed_lines
               else [Console Log [Lit (sym_check @ '' React version compatibility check passed'')]]),
            if startsWith vr ''19.'' \<and> startsWith vd ''17.'' then ProcessExit 1 else Normal)
         \<and> (exit_code (snd (validateReactVersions env)) = 1
              \<longleftrightarrow> startsWith vr ''19.'' \<and> startsWith vd ''17.'')
         \<and> (plain_version vr \<and> plain_version vd \<longrightarrow>
              (exit_code (snd (validateReactVersions env)) = 1 \<longleftrightarrow> majors_19_17 vr vd))"
proof -
  have run: "validateReactVersions env =
           ([Console Log [Lit (sym_magnifier @ '' Validating React version compatibility...'')],
             Console Log [Lit (sym_package @ '' React version: ''), Val (Some (JString r))],
             Console Log [Lit (sym_package @ '' ReactDOM version: ''), Val (Some (JString d))]]
            @ (if major rv \<noteq> major dv then mismatch_lines rv dv else [])
            @ [Console Log [Lit (sym_package @ '' Installed React: ''), Val (Some (JString vr))],
               Console Log [Lit (sym_package @ '' Installed ReactDOM: ''), Val (Some (JString vd))]]
            @ (if startsWith vr ''19.'' \<and> startsWith vd ''17.'' then installed_lines
               else [Console Log [Lit (sym_check @ '' React version compatibility check passed'')]]),
            if startsWith vr ''19.'' \<and> startsWith vd ''17.'' then ProcessExit 1 else Normal)"
    by (simp add: validate_declared_pass [OF assms(1-4)] installed_check_installed [OF assms(5)])
  have code: "exit_code (snd (validateReactVersions env)) = 1
      \<longleftrightarrow> startsWith vr ''19.'' \<and> startsWith vd ''17.''"
    by (simp add: run)
  show ?thesis
    using run code plain_majors_19_17 [of vr vd] by blast
qed

theorem validate_installed_prefix_rule_witness:
  "declares (with_installed ''^18.2.0'' ''^18.2.0'' ''19.0.0'' ''17.0.2'') ''^18.2.0'' ''^18.2.0''
   \<and> parse_version ''^18.2.0'' = Some \<lparr>major = Finite 18, minor = Finite 2, patch = Finite 0\<rparr>
   \<and> installed (with_installed ''^18.2.0'' ''^18.2.0'' ''19.0.0'' ''17.0.2'') ''19.0.0'' ''17.0.2''
   \<and> plain_version ''19.0.0'' \<and> plain_version ''17.0.2''
   \<and> majors_19_17 ''19.0.0'' ''17.0.2''
   \<and> validateReactVersions (with_installed ''^18.2.0'' ''^18.2.0'' ''19.0.0'' ''17.0.2'') =
        ([Console Log [Lit (sym_magnifier @ '' Validating React version compatibility...'')],
          Console Log [Lit (sym_package @ '' React version: ''), Val (Some (JString ''^18.2.0''))],
          Console Log [Lit (sym_package @ '' ReactDOM version: ''), Val (Some (JString ''^18.2.0''))],
          Console Log [Lit (sym_package @ '' Installed React: ''), Val (Some (JString ''19.0.0''))],
          Console Log [Lit (sym_package @ '' Installed ReactDOM: ''), Val (Some (JString ''17.0.2''))]]
         @ installed_lines,
         ProcessExit 1)
   \<and> exit_code (snd (validateReactVersions
         (with_installed ''^18.2.0'' ''^18.2.0'' ''19.0.0'' ''17.0.2''))) = 1"
proof -
  have r: "parse_version ''^18.2.0'' = Some \<lparr>major = Finite 18, minor = Finite 2, patch = Finite 0\<rparr>"
    by (simp add: parse_eval)
  have n: "\<not> (major \<lparr>major = Finite 18, minor = Finite 2, patch = Finite 0\<rparr> = Finite 19
       \<and> major \<lparr>major = Finite 18, minor = Finite 2, patch = Finite 0\<rparr> = Finite 17)"
    by simp
  have p: "plain_version ''19.0.0''" "plain_version ''17.0.2''"
    by (simp_all add: plain_version_def match_here_def is_digit_def Let_def)
  have s: "startsWith ''19.0.0'' ''19.''" "startsWith ''17.0.2'' ''17.''"
    by (simp_all add: startsWith_def)
  have m: "majors_19_17 ''19.0.0'' ''17.0.2''"
    by (simp add: majors_19_17_def parse_eval)
  show ?thesis
    using validate_installed_prefix_rule
      [OF declares_with_installed r r n installed_with_installed, of "''19.0.0''" "''17.0.2''"]
      r p s m declares_with_installed [of "''^18.2.0''" "''^18.2.0''" "''19.0.0''" "''17.0.2''"]
      installed_with_installed [of "''^18.2.0''" "''^18.2.0''" "''19.0.0''" "''17.0.2''"]
    by simp
qed

text \<open>
  C9. The claim as written fails when the installed metadata files are absent: the
  existence test of line 74 skips the block without an exception, so the run returns
  normally and the line "Could not check installed versions in node_modules" is not
  printed.
\<close>

theorem validate_absent_no_soft_warning:
  "\<not> installed_react_exists (declared_only ''18.2.0'' ''18.2.0'')
   \<and> snd (validateReactVersions (declared_only ''18.2.0'' ''18.2.0'')) = Normal
   \<and> soft_warning \<notin> set (fst (validateReactVersions (declared_only ''18.2.0'' ''18.2.0'')))"
proof -
  have r: "parse_version ''18.2.0'' = Some \<lparr>major = Finite 18, minor = Finite 2, patch = Finite 0\<rparr>"
    by (simp add: parse_eval)
  have i: "installed_check (declared_only ''18.2.0'' ''18.2.0'') = ([], Normal)"
    by (simp add: installed_check_absent declared_only_def)
  have e: "\<not> installed_react_exists (declared_only ''18.2.0'' ''18.2.0'')"
    by (simp add: declared_only_def)
  show ?thesis
    using e by (simp add: validate_declared_pass [OF declares_declared_only r r] i
        soft_warning_not_opening)
qed

text \<open>
  C9, as the code has it. When the declared versions pass and the installed metadata is
  absent, unreadable or not valid JSON, the cross-check is skipped and the script returns
  normally (exit code 0). The soft warning is printed exactly when both files exist, that
  is when a read or a parse threw; absent files are skipped in silence.
\<close>

theorem validate_installed_unavailable:
  assumes "declares env r d"
    and "parse_version r = Some rv"
    and "parse_version d = Some dv"
    and "\<not> (major rv = Finite 19 \<and> major dv = Finite 17)"
    and "\<not> (installed_react_exists env \<and> installed_react_dom_exists env)
         \<or> isl (installed_react_json env) \<or> isl (installed_react_dom_json env)"
  shows "validateReactVersions env =
           ([Console Log [Lit (sym_magnifier @ '' Validating React version compatibility...'')],
             Console Log [Lit (sym_package @ '' React version: ''), Val (Some (JString r))],
             Console Log [Lit (sym_package @ '' ReactDOM version: ''), Val (Some (JString d))]]
            @ (if major rv \<noteq> major dv then mismatch_lines rv dv else [])
            @ (if installed_react_exists env \<and> installed_react_dom_exists env
               then [soft_warning] else [])
            @ [Console Log [Lit (sym_check @ '' React version compatibility check passed'')]],
            Normal)
         \<and> exit_code (snd (validateReactVersions env)) = 0
         \<and> (soft_warning \<in> set (fst (validateReactVersions env))
              \<longleftrightarrow> installed_react_exists env \<and> installed_react_dom_exists env)"
proof (cases "installed_react_exists env \<and> installed_react_dom_exists env")
  case True
  with assms(5) have "isl (installed_react_json env) \<or> isl (installed_react_dom_json env)"
    by blast
  with True have "installed_check env = ([soft_warning], Normal)"
    by (simp add: installed_check_read_fails)
  with True show ?thesis
    by (simp add: validate_declared_pass [OF assms(1-4)])
next
  case False
  then have "installed_check env = ([], Normal)"
    by (rule installed_check_absent)
  with False show ?thesis
    by (simp add: validate_declared_pass [OF assms(1-4)] soft_warning_not_opening)
qed

theorem validate_installed_unavailable_witness:
  "declares (with_broken_installed ''18.2.0'' ''18.2.0'') ''18.2.0'' ''18.2.0''
   \<and> parse_version ''18.2.0'' = Some \<lparr>major = Finite 18, minor = Finite 2, patch = Finite 0\<rparr>
   \<and> installed_react_exists (with_broken_installed ''18.2.0'' ''18.2.0'')
   \<and> installed_react_dom_exists (with_broken_installed ''18.2.0'' ''18.2.0'')
   \<and> isl (installed_react_json (with_broken_installed ''18.2.0'' ''18.2.0''))
   \<and> validateReactVersions (with_broken_installed ''18.2.0'' ''18.2.0'') =
        ([Console Log [Lit (sym_magnifier @ '' Validating React version compatibility...'')],
          Console Log [Lit (sym_package @ '' React version: ''), Val (Some (JString ''18.2.0''))],
          Console Log [Lit (sym_package @ '' ReactDOM version: ''), Val (Some (JString ''18.2.0''))],
          soft_warning,
          Console Log [Lit (sym_check @ '' React version compatibility check passed'')]],
         Normal)
   \<and> exit_code (snd (validateReactVersions (with_broken_installed ''18.2.0'' ''18.2.0''))) = 0
   \<and> soft_warning \<in> set (fst (validateReactVersions (with_broken_installed ''18.2.0'' ''18.2.0'')))"
proof -
  have r: "parse_version ''18.2.0'' = Some \<lparr>major = Finite 18, minor = Finite 2, patch = Finite 0\<rparr>"
    by (simp add: parse_eval)
  have n: "\<not> (major \<lparr>major = Finite 18, minor = Finite 2, patch = Finite 0\<rparr> = Finite 19
       \<and> major \<lparr>major = Finite 18, minor = Finite 2, patch = Finite 0\<rparr> = Finite 17)"
    by simp
  have e: "installed_react_exists (with_broken_installed ''18.2.0'' ''18.2.0'')"
    "installed_react_dom_exists (with_broken_installed ''18.2.0'' ''18.2.0'')"
    "isl (installed_react_json (with_broken_installed ''18.2.0'' ''18.2.0''))"
    by (simp_all add: with_broken_installed_def)
  then have h: "\<not> (installed_react_exists (with_broken_installed ''18.2.0'' ''18.2.0'')
        \<and> installed_react_dom_exists (with_broken_installed ''18.2.0'' ''18.2.0''))
      \<or> isl (installed_react_json (with_broken_installed ''18.2.0'' ''18.2.0''))
      \<or> isl (installed_react_dom_json (with_broken_installed ''18.2.0'' ''18.2.0''))"
    by simp
  show ?thesis
    using validate_installed_unavailable [OF declares_with_broken_installed r r n h]
      r e declares_with_broken_installed [of "''18.2.0''" "''18.2.0''"]
    by simp
qed

end
